theory Spec2Isabelle
  imports Main
begin

section \<open>Python strings\<close>

text \<open>
  The module is Python 2: a header value, a principal and a group name are byte strings,
  modelled as \<open>string\<close>. The functions below are the \<open>str\<close> methods the module calls.
\<close>

text \<open>\<open>s.split(sep)\<close> for a one-character separator: every occurrence of \<open>sep\<close> ends a
  field, so the result has one field more than there are separators. The first argument is
  the field read so far.\<close>

fun split_on :: "char \<Rightarrow> string \<Rightarrow> string \<Rightarrow> string list" where
  "split_on sep cur [] = [cur]"
| "split_on sep cur (c # cs) =
     (if c = sep then cur # split_on sep [] cs else split_on sep (cur @ [c]) cs)"

definition str_split :: "char \<Rightarrow> string \<Rightarrow> string list" where
  "str_split sep s = split_on sep [] s"

text \<open>\<open>s.split(sep, 1)\<close>: split at the first occurrence of \<open>sep\<close> only.\<close>

definition str_split1 :: "char \<Rightarrow> string \<Rightarrow> string list" where
  "str_split1 sep s =
     (if sep \<in> set s
      then [takeWhile (\<lambda>c. c \<noteq> sep) s, tl (dropWhile (\<lambda>c. c \<noteq> sep) s)]
      else [s])"

text \<open>The characters \<open>str.split()\<close> treats as white space: space, tab, line feed,
  vertical tab, form feed, carriage return.\<close>

definition is_space :: "char \<Rightarrow> bool" where
  "is_space c = (c \<in> set [CHR '' '', CHR 0x09, CHR 0x0A, CHR 0x0B, CHR 0x0C, CHR 0x0D])"

text \<open>\<open>s.split()\<close> with no argument: fields are the maximal runs of characters that are
  not white space; no field is empty.\<close>

fun split_ws :: "string \<Rightarrow> string \<Rightarrow> string list" where
  "split_ws cur [] = (if cur = [] then [] else [cur])"
| "split_ws cur (c # cs) =
     (if is_space c
      then (if cur = [] then split_ws [] cs else cur # split_ws [] cs)
      else split_ws (cur @ [c]) cs)"

definition str_split_ws :: "string \<Rightarrow> string list" where
  "str_split_ws s = split_ws [] s"

text \<open>\<open>s.startswith(p)\<close>.\<close>

definition startswith :: "string \<Rightarrow> string \<Rightarrow> bool" where
  "startswith s p = (take (length p) s = p)"

text \<open>\<open>"%d" % i\<close>: the decimal digits of an integer, with a minus sign when negative.\<close>

definition digit_char :: "nat \<Rightarrow> char" where
  "digit_char d = ''0123456789'' ! d"

fun nat_str :: "nat \<Rightarrow> string" where
  "nat_str n = (if n < 10 then [digit_char n] else nat_str (n div 10) @ [digit_char (n mod 10)])"

declare nat_str.simps [simp del]

definition int_str :: "int \<Rightarrow> string" where
  "int_str i = (if i < 0 then CHR ''-'' # nat_str (nat (- i)) else nat_str (nat i))"

text \<open>
  \<open>repr(x)\<close> of a byte string: single quotes, or double quotes when the string has a
  single quote and no double quote; the quote and the backslash are escaped, tab, line feed
  and carriage return are written \<open>\t\<close>, \<open>\n\<close>, \<open>\r\<close>, and any other character outside
  the printable ASCII range as \<open>\xNN\<close>.
\<close>

definition hex_digit :: "nat \<Rightarrow> char" where
  "hex_digit d = ''0123456789abcdef'' ! d"

definition repr_char :: "char \<Rightarrow> char \<Rightarrow> string" where
  "repr_char q c =
     (if c = q \<or> c = CHR 0x5C then [CHR 0x5C, c]
      else if c = CHR 0x09 then [CHR 0x5C, CHR ''t'']
      else if c = CHR 0x0A then [CHR 0x5C, CHR ''n'']
      else if c = CHR 0x0D then [CHR 0x5C, CHR ''r'']
      else if (of_char c :: nat) < 32 \<or> 127 \<le> (of_char c :: nat)
      then [CHR 0x5C, CHR ''x'', hex_digit (of_char c div 16), hex_digit (of_char c mod 16)]
      else [c])"

definition py_repr_str :: "string \<Rightarrow> string" where
  "py_repr_str x =
     (let q = (if CHR 0x27 \<in> set x \<and> CHR 0x22 \<notin> set x then CHR 0x22 else CHR 0x27)
      in q # concat (map (repr_char q) x) @ [q])"

text \<open>\<open>sep.join(xs)\<close>.\<close>

fun str_join :: "string \<Rightarrow> string list \<Rightarrow> string" where
  "str_join sep [] = []"
| "str_join sep [x] = x"
| "str_join sep (x # y # ys) = x @ sep @ str_join sep (y # ys)"

text \<open>
  \<open>str(S)\<close> of a set of strings, as Python 2 prints it: \<open>set(['a', 'b'])\<close>, the
  elements in the order the set iterates. The list is the set in that order.
\<close>

definition py_str_set :: "string list \<Rightarrow> string" where
  "py_str_set xs = ''set(['' @ str_join '', '' (map py_repr_str xs) @ ''])''"

section \<open>Errors\<close>

text \<open>
  Every exception the module raises or lets through is a value. The two falcon errors
  carry the positional arguments they are built with (title, description). A GSSAPI error
  carries \<open>args = ((major text, major code), (minor text, minor code))\<close>.
\<close>

type_synonym gss_args = "(string \<times> int) \<times> (string \<times> int)"

datatype error =
    HTTPUnauthorized "string list"
  | HTTPForbidden "string list"
  | ValueError string
  | KeyError string
  | TypeError string
  | AttributeError string
  | NotImplementedError string
  | GSSError gss_args
  | KrbError string
  | IndexError string
  | LDAPError string
  | OtherError string

section \<open>The identity class \<open>User\<close>\<close>

text \<open>
  The attributes of a \<open>User\<close> instance. \<open>dn\<close> is not assigned by the constructor: \<open>None\<close>
  stands for the attribute being absent.
\<close>

record user =
  mail :: "string option"
  name :: string
  domain :: "string option"
  given_name :: "string option"
  surname :: "string option"
  dn :: "string option"

text \<open>
  \<open>User.__init__\<close>. The assignment \<open>self.name, self.domain = name.split("@")\<close> unpacks
  into exactly two targets; any other number of fields raises \<open>ValueError\<close>.
\<close>

definition User_init :: "string \<Rightarrow> error + user" where
  "User_init nm =
     (if CHR ''@'' \<in> set nm
      then (case str_split CHR ''@'' nm of
              [a, b] \<Rightarrow> Inr \<lparr>mail = Some nm, name = a, domain = Some b,
                            given_name = None, surname = None, dn = None\<rparr>
            | [] \<Rightarrow> Inl (ValueError ''need more than 0 values to unpack'')
            | [a] \<Rightarrow> Inl (ValueError ''need more than 1 value to unpack'')
            | _ \<Rightarrow> Inl (ValueError ''too many values to unpack''))
      else Inr \<lparr>mail = None, name = nm, domain = None,
                given_name = None, surname = None, dn = None\<rparr>)"

text \<open>
  \<open>User.__repr__\<close>, which is also what \<open>str(user)\<close> and \<open>"%s" % user\<close> call, the class
  having no \<open>__str__\<close>. An empty string is false in Python, so both names must be set and
  non-empty for the long form; an unset mail prints as \<open>None\<close> there. In the short form the
  method returns \<open>self.mail\<close> itself, and Python raises \<open>TypeError\<close> when that is \<open>None\<close>.
\<close>

definition py_str_opt :: "string option \<Rightarrow> string" where
  "py_str_opt v = (case v of None \<Rightarrow> ''None'' | Some s \<Rightarrow> s)"

definition truthy :: "string option \<Rightarrow> bool" where
  "truthy v = (case v of None \<Rightarrow> False | Some s \<Rightarrow> s \<noteq> [])"

definition User_repr :: "user \<Rightarrow> error + string" where
  "User_repr u =
     (if truthy (given_name u) \<and> truthy (surname u)
      then Inr (py_str_opt (given_name u) @ '' '' @ py_str_opt (surname u)
                @ '' <'' @ py_str_opt (mail u) @ ''>'')
      else (case mail u of
              None \<Rightarrow> Inl (TypeError ''__repr__ returned non-string (type NoneType)'')
            | Some m \<Rightarrow> Inr m))"

section \<open>Requests, the request context and the outside world\<close>

text \<open>
  A directory connection is named by the server it was initialised for.
\<close>

datatype conn = Conn string

text \<open>
  \<open>req.context\<close>, a dictionary: a field is \<open>None\<close> when the key is absent. The module
  uses the keys \<open>user\<close>, \<open>groups\<close>, \<open>ldap_conn\<close> and \<open>remote_addr\<close>.
\<close>

record req_context =
  ctx_user :: "user option"
  ctx_groups :: "string set option"
  ctx_ldap_conn :: "conn option"
  ctx_remote_addr :: "string option"

text \<open>
  The calls the module makes to the services outside it, in the order they happen.
  Logging and \<open>click.echo\<close> are left out: they change neither the context nor the
  response, and the logging module swallows errors of its own.
\<close>

datatype event =
    Getgrnam string
  | Getpwnam string
  | LdapInitialize string
  | LdapSetOption conn
  | SaslBind conn
  | SimpleBind conn string string
  | LdapSearch conn string string "string list"
  | LdapUnbind conn
  | PamAuthenticate string string string
  | GSSServerInit string
  | GSSServerStep string
  | GSSServerUserName
  | GSSServerClean

text \<open>
  What a handler can change: the request context, the response headers
  (\<open>resp.append_header\<close>) and the trace of outside calls.
\<close>

record state =
  ctx :: req_context
  resp_headers :: "(string \<times> string) list"
  trace :: "event list"

text \<open>
  What a handler reads of the request: \<open>req.auth\<close> (the Authorization header, \<open>None\<close>
  when absent) and the result of \<open>req.get_param_as_bool("authenticate")\<close>, which is
  \<open>None\<close> for a missing parameter and an error of the framework for a malformed one.
\<close>

record request =
  auth :: "string option"
  param_authenticate :: "error + bool option"

text \<open>
  The answers of the services outside the module: the system group and account databases,
  the file system and environment, the directory, PAM, the Kerberos library and
  \<open>base64.b64decode\<close>. They are parameters of the model. A database lookup that gives
  \<open>None\<close> raises \<open>KeyError\<close> in Python; a call that gives \<open>Some e\<close> or \<open>Inl e\<close>
  raises \<open>e\<close>. A directory entry is a dictionary from attribute names to value lists, and its
  distinguished name may be \<open>None\<close> (a referral).
\<close>

type_synonym ldap_entry = "string \<Rightarrow> string list option"

record world =
  grp_members :: "string \<Rightarrow> string list option"
  pwd_gecos :: "string \<Rightarrow> string option"
  keytab_exists :: bool
  KRB5CCNAME :: "string option"
  sasl_interactive_bind_s :: "conn \<Rightarrow> error option"
  simple_bind_s :: "conn \<Rightarrow> string \<Rightarrow> string \<Rightarrow> error option"
  search_s :: "conn \<Rightarrow> string \<Rightarrow> string list \<Rightarrow> error + (string option \<times> ldap_entry) list"
  pam_ok :: "string \<Rightarrow> string \<Rightarrow> string \<Rightarrow> bool"
  authGSSServerInit :: "string \<Rightarrow> error + int"
  authGSSServerStep :: "string \<Rightarrow> error + int"
  authGSSServerUserName :: string
  authGSSServerClean :: "error option"
  b64decode :: "string \<Rightarrow> error + string"

text \<open>
  Modelled from the spec: the modules \<open>certidude.config\<close> and \<open>certidude.constants\<close>,
  which this file imports and which are not part of the sources at hand. The spec gives
  the backends as single values, the whitelist as a static set of identity strings (such as
  \<open>{"alice@example.com"}\<close>), the administrators' group as one group name and the directory
  servers as a list. \<open>AUTHENTICATION_BACKENDS\<close> is a Python set, which this file compares
  with \<open>{"kerberos"}\<close>, \<open>{"pam"}\<close> and \<open>{"ldap"}\<close> and prints in an error message: it
  is the list of its elements in the order the set iterates, compared through \<open>set\<close>. The two filters are format strings applied with \<open>%\<close>; here they are
  the functions from the arguments to the formatted filter, which may raise. \<open>FQDN\<close> is
  the module's own constant, computed from the host name when the module is loaded.
\<close>

record config =
  AUTHENTICATION_BACKENDS :: "string list"
  AUTHORIZATION_BACKEND :: string
  ACCOUNTS_BACKEND :: string
  ADMIN_WHITELIST :: "string set"
  ADMINS_GROUP :: string
  LDAP_SERVERS :: "string list"
  LDAP_BASE :: string
  LDAP_USER_FILTER :: "string \<Rightarrow> error + string"
  LDAP_MEMBERS_FILTER :: "string \<Rightarrow> string \<Rightarrow> error + string"
  DOMAIN :: string
  FQDN :: string

text \<open>
  A handler is a responder method after decoration: it reads the request, changes the
  state and returns a value or raises. The arguments \<open>resource\<close>, \<open>args\<close> and
  \<open>kwargs\<close> are handed on unchanged by every wrapper and are part of the wrapped handler.
\<close>

type_synonym 'r handler = "request \<Rightarrow> state \<Rightarrow> (error + 'r) \<times> state"

definition emit :: "event \<Rightarrow> state \<Rightarrow> state" where
  "emit e s = s\<lparr>trace := trace s @ [e]\<rparr>"

definition append_header :: "string \<Rightarrow> string \<Rightarrow> state \<Rightarrow> state" where
  "append_header k v s = s\<lparr>resp_headers := resp_headers s @ [(k, v)]\<rparr>"

definition set_user :: "user \<Rightarrow> state \<Rightarrow> state" where
  "set_user u s = s\<lparr>ctx := (ctx s)\<lparr>ctx_user := Some u\<rparr>\<rparr>"

definition set_groups :: "string set \<Rightarrow> state \<Rightarrow> state" where
  "set_groups g s = s\<lparr>ctx := (ctx s)\<lparr>ctx_groups := Some g\<rparr>\<rparr>"

definition set_ldap_conn :: "conn \<Rightarrow> state \<Rightarrow> state" where
  "set_ldap_conn c s = s\<lparr>ctx := (ctx s)\<lparr>ctx_ldap_conn := Some c\<rparr>\<rparr>"

text \<open>
  The trace is a log: a handler that behaves adds to it and never rewrites it.
  \<open>extends s s'\<close> says that the trace of \<open>s'\<close> continues the trace of \<open>s\<close>.
\<close>

definition extends :: "state \<Rightarrow> state \<Rightarrow> bool" where
  "extends s s' = (\<exists>evs. trace s' = trace s @ evs)"

definition appends_only :: "'r handler \<Rightarrow> bool" where
  "appends_only func = (\<forall>req s. extends s (snd (func req s)))"

text \<open>The first result of a directory search whose distinguished name is true (neither
  \<open>None\<close> nor empty): the loops \<open>for dn, entry in r: if not dn: continue\<close> act on it
  and leave, and take their \<open>else\<close> branch when there is none.\<close>

definition first_entry :: "(string option \<times> ldap_entry) list \<Rightarrow> (string \<times> ldap_entry) option" where
  "first_entry r =
     (case filter (\<lambda>de. truthy (fst de)) r of
        [] \<Rightarrow> None
      | de # _ \<Rightarrow> Some (py_str_opt (fst de), snd de))"

section \<open>Group membership: \<open>member_of\<close>\<close>

text \<open>
  \<open>posix_check_group_membership\<close>. \<open>grp.getgrnam\<close> is called first, on every call;
  \<open>req.context.get("user")\<close> and \<open>req.context.get("groups")\<close> give \<open>None\<close> for an absent
  key, and reading an attribute of \<open>None\<close> raises \<open>AttributeError\<close>.
\<close>

definition posix_check_group_membership ::
  "world \<Rightarrow> string \<Rightarrow> 'r handler \<Rightarrow> 'r handler" where
  "posix_check_group_membership w group_name func req s =
     (let s1 = emit (Getgrnam group_name) s in
      case grp_members w group_name of
        None \<Rightarrow> (Inl (KeyError (''getgrnam(): name not found: '' @ group_name)), s1)
      | Some members \<Rightarrow>
          (case ctx_user (ctx s1) of
             None \<Rightarrow> (Inl (AttributeError ''name''), s1)
           | Some u \<Rightarrow>
               if name u \<notin> set members
               then (Inl (HTTPForbidden [''Forbidden'', ''User not member of designated group'']), s1)
               else (case ctx_groups (ctx s1) of
                       None \<Rightarrow> (Inl (AttributeError ''add''), s1)
                     | Some g \<Rightarrow> func req (set_groups (insert group_name g) s1))))"

text \<open>
  \<open>ldap_check_group_membership\<close>. The debug message of the loop is formatted with \<open>%\<close>
  before it is logged, so \<open>User.__repr__\<close> runs there and its error is raised.
\<close>

definition ldap_check_group_membership ::
  "config \<Rightarrow> world \<Rightarrow> string \<Rightarrow> 'r handler \<Rightarrow> 'r handler" where
  "ldap_check_group_membership cfg w group_name func req s =
     (case ctx_user (ctx s) of
        None \<Rightarrow> (Inl (AttributeError ''dn''), s)
      | Some u \<Rightarrow>
     (case dn u of
        None \<Rightarrow> (Inl (AttributeError ''dn''), s)
      | Some user_dn \<Rightarrow>
     (case LDAP_MEMBERS_FILTER cfg group_name user_dn of
        Inl e \<Rightarrow> (Inl e, s)
      | Inr ft \<Rightarrow>
     (case ctx_ldap_conn (ctx s) of
        None \<Rightarrow> (Inl (AttributeError ''search_s''), s)
      | Some c \<Rightarrow>
     (let s1 = emit (LdapSearch c (LDAP_BASE cfg) ft [''member'']) s in
      case search_s w c ft [''member''] of
        Inl e \<Rightarrow> (Inl e, s1)
      | Inr r \<Rightarrow>
     (case first_entry r of
        None \<Rightarrow> (Inl (ValueError (''Failed to look up group '' @ [CHR 0x27] @ group_name
                        @ [CHR 0x27] @ '' with '' @ [CHR 0x27] @ name u @ [CHR 0x27]
                        @ '' listed as member in LDAP'')), s1)
      | Some de \<Rightarrow>
     (case User_repr u of
        Inl e \<Rightarrow> (Inl e, s1)
      | Inr _ \<Rightarrow>
     (case ctx_groups (ctx s1) of
        None \<Rightarrow> (Inl (AttributeError ''add''), s1)
      | Some g \<Rightarrow> func req (set_groups (insert group_name g) s1)))))))))"

text \<open>
  \<open>member_of(group_name)(func)\<close>: the backend is chosen when the handler is decorated,
  and an unknown backend raises there.
\<close>

definition member_of :: "config \<Rightarrow> world \<Rightarrow> string \<Rightarrow> 'r handler \<Rightarrow> error + 'r handler" where
  "member_of cfg w group_name func =
     (if AUTHORIZATION_BACKEND cfg = ''ldap''
      then Inr (ldap_check_group_membership cfg w group_name func)
      else if AUTHORIZATION_BACKEND cfg = ''posix''
      then Inr (posix_check_group_membership w group_name func)
      else Inl (NotImplementedError
                  (''Authorization backend '' @ AUTHORIZATION_BACKEND cfg @ '' not supported'')))"

section \<open>Account information: \<open>account_info\<close>\<close>

text \<open>
  \<open>posix_account_info\<close>. \<open>req.context["user"]\<close> raises \<open>KeyError\<close> for an absent key.
  The first comma-separated field of the account's descriptive text is split at its first
  space when it has one; the mail address is always overwritten. \<open>decode("utf-8")\<close> is the
  identity on the ASCII strings of the model.
\<close>

definition posix_account_info :: "config \<Rightarrow> world \<Rightarrow> 'r handler \<Rightarrow> 'r handler" where
  "posix_account_info cfg w func req s =
     (case ctx_user (ctx s) of
        None \<Rightarrow> (Inl (KeyError ''user''), s)
      | Some u \<Rightarrow>
     (let s1 = emit (Getpwnam (name u)) s in
      case pwd_gecos w (name u) of
        None \<Rightarrow> (Inl (KeyError (''getpwnam(): name not found: '' @ name u)), s1)
      | Some gecos \<Rightarrow>
     (case str_split CHR '','' gecos of
        [] \<Rightarrow> (Inl (IndexError ''list index out of range''), s1)
      | full_name # _ \<Rightarrow>
     (if full_name \<noteq> [] \<and> CHR '' '' \<in> set full_name
      then (case str_split1 CHR '' '' full_name of
              [a, b] \<Rightarrow>
                func req (set_user (u\<lparr>given_name := Some a, surname := Some b,
                                       mail := Some (name u @ ''@'' @ DOMAIN cfg)\<rparr>) s1)
            | _ \<Rightarrow> (Inl (ValueError ''need more than 1 value to unpack''), s1))
      else func req (set_user (u\<lparr>mail := Some (name u @ ''@'' @ DOMAIN cfg)\<rparr>) s1)))))"

text \<open>A one-target unpacking \<open>x, = v\<close>: \<open>v\<close> must be a sequence of exactly one element.\<close>

definition unpack1 :: "'a list option \<Rightarrow> error + 'a" where
  "unpack1 v =
     (case v of
        None \<Rightarrow> Inl (TypeError ''NoneType object is not iterable'')
      | Some [] \<Rightarrow> Inl (ValueError ''need more than 0 values to unpack'')
      | Some [x] \<Rightarrow> Inr x
      | Some _ \<Rightarrow> Inl (ValueError ''too many values to unpack''))"

definition list_truthy :: "'a list option \<Rightarrow> bool" where
  "list_truthy v = (case v of None \<Rightarrow> False | Some l \<Rightarrow> l \<noteq> [])"

text \<open>
  The start of \<open>ldap_account_info\<close>: when the context holds no directory connection, one
  is opened to the first configured server and bound with the service's own ticket cache.
  Every path through the loop body leaves the loop, so only the first server is tried.
\<close>

definition ldap_service_bind :: "config \<Rightarrow> world \<Rightarrow> state \<Rightarrow> error option \<times> state" where
  "ldap_service_bind cfg w s =
     (case ctx_ldap_conn (ctx s) of
        Some _ \<Rightarrow> (None, s)
      | None \<Rightarrow>
     (case LDAP_SERVERS cfg of
        [] \<Rightarrow> (Some (ValueError ''No LDAP servers!''), s)
      | server # _ \<Rightarrow>
     (let c = Conn server;
          s1 = emit (LdapSetOption c) (emit (LdapInitialize server) s)
      in if keytab_exists w
         then (if truthy (KRB5CCNAME w)
               then (let s2 = emit (SaslBind c) s1 in
                     case sasl_interactive_bind_s w c of
                       Some e \<Rightarrow> (Some e, s2)
                     | None \<Rightarrow> (None, set_ldap_conn c s2))
               else (Some (ValueError (''Ticket cache not initialized, unable to ''
                       @ ''authenticate with computer account against LDAP server!'')), s1))
         else (Some (NotImplementedError ''LDAP simple bind not supported, use Kerberos''), s1))))"

text \<open>The names taken from a directory entry. The test reads the key \<open>givenname\<close>, the
  assignment the key \<open>givenName\<close>, as the source has it.\<close>

definition ldap_names :: "ldap_entry \<Rightarrow> user \<Rightarrow> error + user" where
  "ldap_names entry u =
     (if list_truthy (entry ''givenname'') \<and> list_truthy (entry ''sn'')
      then (case unpack1 (entry ''givenName'') of
              Inl e \<Rightarrow> Inl e
            | Inr g \<Rightarrow>
                (case unpack1 (entry ''sn'') of
                   Inl e \<Rightarrow> Inl e
                 | Inr sn \<Rightarrow> Inr (u\<lparr>given_name := Some g, surname := Some sn\<rparr>)))
      else (case unpack1 (entry ''cn'') of
              Inl e \<Rightarrow> Inl e
            | Inr cn \<Rightarrow>
                if CHR '' '' \<in> set cn
                then (case str_split1 CHR '' '' cn of
                        [a, b] \<Rightarrow> Inr (u\<lparr>given_name := Some a, surname := Some b\<rparr>)
                      | _ \<Rightarrow> Inl (ValueError ''need more than 1 value to unpack''))
                else Inr u))"

text \<open>\<open>entry.get("mail") or entry.get("userPrincipalName") or (None,)\<close>, unpacked into
  one target.\<close>

definition ldap_mail :: "ldap_entry \<Rightarrow> error + string option" where
  "ldap_mail entry =
     (if list_truthy (entry ''mail'') then map_sum id Some (unpack1 (entry ''mail''))
      else if list_truthy (entry ''userPrincipalName'')
      then map_sum id Some (unpack1 (entry ''userPrincipalName''))
      else Inr None)"

text \<open>
  \<open>ldap_account_info\<close>. The wrapped handler is called inside the loop, and
  \<open>unbind_s\<close> is the statement after that call: it runs when the call returns, and is
  skipped when the call raises. It is applied to whatever connection the context holds
  then, opened here or found there.
\<close>

definition ldap_account_info :: "config \<Rightarrow> world \<Rightarrow> 'r handler \<Rightarrow> 'r handler" where
  "ldap_account_info cfg w func req s =
     (case ldap_service_bind cfg w s of
        (Some e, s1) \<Rightarrow> (Inl e, s1)
      | (None, s1) \<Rightarrow>
     (case ctx_user (ctx s1) of
        None \<Rightarrow> (Inl (AttributeError ''name''), s1)
      | Some u \<Rightarrow>
     (case LDAP_USER_FILTER cfg (name u) of
        Inl e \<Rightarrow> (Inl e, s1)
      | Inr ft \<Rightarrow>
     (case ctx_ldap_conn (ctx s1) of
        None \<Rightarrow> (Inl (AttributeError ''search_s''), s1)
      | Some c \<Rightarrow>
     (let attrs = [''cn'', ''givenname'', ''sn'', ''mail'', ''userPrincipalName''];
          s2 = emit (LdapSearch c (LDAP_BASE cfg) ft attrs) s1
      in case search_s w c ft attrs of
        Inl e \<Rightarrow> (Inl e, s2)
      | Inr r \<Rightarrow>
     (case first_entry r of
        None \<Rightarrow>
          (case User_repr u of
             Inl e \<Rightarrow> (Inl e, s2)
           | Inr t \<Rightarrow> (Inl (ValueError (''Failed to look up '' @ t @ '' in LDAP'')), s2))
      | Some de \<Rightarrow>
     (case ldap_names (snd de) u of
        Inl e \<Rightarrow> (Inl e, s2)
      | Inr u1 \<Rightarrow>
     (case ldap_mail (snd de) of
        Inl e \<Rightarrow> (Inl e, set_user (u1\<lparr>dn := Some (fst de)\<rparr>) s2)
      | Inr m \<Rightarrow>
     (case func req (set_user (u1\<lparr>dn := Some (fst de), mail := m\<rparr>) s2) of
        (Inl e, s3) \<Rightarrow> (Inl e, s3)
      | (Inr retval, s3) \<Rightarrow>
          (case ctx_ldap_conn (ctx s3) of
             None \<Rightarrow> (Inl (AttributeError ''unbind_s''), s3)
           | Some c' \<Rightarrow> (Inr retval, emit (LdapUnbind c') s3)))))))))))"

text \<open>
  \<open>account_info(func)\<close> chooses the backend; the authentication handlers call
  \<open>account_info(func)(resource, req, resp, ...)\<close> while serving a request, so an unknown
  backend raises at that point.
\<close>

definition account_info :: "config \<Rightarrow> world \<Rightarrow> 'r handler \<Rightarrow> error + 'r handler" where
  "account_info cfg w func =
     (if ACCOUNTS_BACKEND cfg = ''ldap'' then Inr (ldap_account_info cfg w func)
      else if ACCOUNTS_BACKEND cfg = ''posix'' then Inr (posix_account_info cfg w func)
      else Inl (NotImplementedError
                  (''Accounts backend '' @ ACCOUNTS_BACKEND cfg @ '' not supported'')))"

definition call_account_info :: "config \<Rightarrow> world \<Rightarrow> 'r handler \<Rightarrow> 'r handler" where
  "call_account_info cfg w func req s =
     (case account_info cfg w func of
        Inl e \<Rightarrow> (Inl e, s)
      | Inr h \<Rightarrow> h req s)"

section \<open>Authentication: \<open>authenticate\<close>\<close>

text \<open>
  The first test of each of the three handlers,
  \<open>optional and not req.get_param_as_bool("authenticate")\<close>: the parameter is read only
  when \<open>optional\<close> holds; \<open>None\<close> and \<open>False\<close> are both false. When the test holds the
  wrapped handler runs with no authentication at all.
\<close>

definition skip_authentication :: "bool \<Rightarrow> request \<Rightarrow> error + bool" where
  "skip_authentication optional req =
     (if optional
      then (case param_authenticate req of
              Inl e \<Rightarrow> Inl e
            | Inr v \<Rightarrow> Inr (v \<noteq> Some True))
      else Inr False)"

text \<open>\<open>not req.auth\<close>: the header is absent or empty.\<close>

definition no_auth :: "request \<Rightarrow> bool" where
  "no_auth req = (case auth req of None \<Rightarrow> True | Some h \<Rightarrow> h = [])"

text \<open>\<open>''.join(req.auth.split()[1:])\<close>: the header is split at white space, the first
  field is dropped and all the others are joined with nothing between them.\<close>

definition kerberos_token :: "string \<Rightarrow> string" where
  "kerberos_token h = concat (tl (str_split_ws h))"

text \<open>
  The token as the specification words it, for comparison with \<open>kerberos_token\<close>: the
  second field of the header when it is split at single spaces.
\<close>

definition spec_second_field :: "string \<Rightarrow> string option" where
  "spec_second_field h = (case str_split CHR '' '' h of a # b # _ \<Rightarrow> Some b | _ \<Rightarrow> None)"

text \<open>The result codes of the Kerberos library.\<close>

definition AUTH_GSS_COMPLETE :: int where
  "AUTH_GSS_COMPLETE = 1"

definition AUTH_GSS_CONTINUE :: int where
  "AUTH_GSS_CONTINUE = 0"

text \<open>
  The two \<open>except\<close> clauses around \<open>authGSSServerStep\<close>: each calls
  \<open>authGSSServerClean\<close> first, outside any \<open>try\<close>, so an error of the clean-up itself is
  raised as it is; any other error of the step is not caught.
\<close>

fun kerberos_step_failed :: "world \<Rightarrow> error \<Rightarrow> state \<Rightarrow> error \<times> state" where
  "kerberos_step_failed w (GSSError ex) s =
     (let s1 = emit GSSServerClean s in
      case authGSSServerClean w of
        Some e \<Rightarrow> (e, s1)
      | None \<Rightarrow> (HTTPForbidden [''Forbidden'', ''Bad credentials: '' @ fst (fst ex) @ '' (''
                                  @ int_str (snd (fst ex)) @ '')''], s1))"
| "kerberos_step_failed w (KrbError msg) s =
     (let s1 = emit GSSServerClean s in
      case authGSSServerClean w of
        Some e \<Rightarrow> (e, s1)
      | None \<Rightarrow> (HTTPForbidden [''Forbidden'', ''Bad credentials: '' @ msg], s1))"
| "kerberos_step_failed w e s = (e, s)"

text \<open>The clean-up after a step that returned: only a GSSAPI error is caught there.\<close>

fun kerberos_clean_failed :: "error \<Rightarrow> error" where
  "kerberos_clean_failed (GSSError ex) =
     HTTPUnauthorized [''Authentication System Failure '' @ fst (fst ex) @ '' (''
                       @ fst (snd ex) @ '')'']"
| "kerberos_clean_failed e = e"

fun kerberos_init_failed :: "error \<Rightarrow> error" where
  "kerberos_init_failed (GSSError ex) =
     HTTPForbidden [''Forbidden'', ''Authentication System Failure: '' @ fst (fst ex) @ ''(''
                    @ fst (snd ex) @ '')'']"
| "kerberos_init_failed e = e"

definition kerberos_authenticate ::
  "config \<Rightarrow> world \<Rightarrow> bool \<Rightarrow> 'r handler \<Rightarrow> 'r handler" where
  "kerberos_authenticate cfg w optional func req s =
     (case skip_authentication optional req of
        Inl e \<Rightarrow> (Inl e, s)
      | Inr True \<Rightarrow> func req s
      | Inr False \<Rightarrow>
     (if no_auth req
      then (Inl (HTTPUnauthorized [''Unauthorized'',
                   ''No Kerberos ticket offered, are you sure you've logged in with domain user account?'']),
            append_header ''WWW-Authenticate'' ''Negotiate'' s)
      else
     (let token = kerberos_token (py_str_opt (auth req));
          s1 = emit (GSSServerInit (''HTTP@'' @ FQDN cfg)) s
      in case authGSSServerInit w (''HTTP@'' @ FQDN cfg) of
        Inl e \<Rightarrow> (Inl (kerberos_init_failed e), s1)
      | Inr _ \<Rightarrow>
     (let s2 = emit (GSSServerStep token) s1 in
      case authGSSServerStep w token of
        Inl e \<Rightarrow> (case kerberos_step_failed w e s2 of (e', s3) \<Rightarrow> (Inl e', s3))
      | Inr result \<Rightarrow>
     (let s3 = emit GSSServerUserName s2 in
      case User_init (authGSSServerUserName w) of
        Inl e \<Rightarrow> (Inl e, s3)
      | Inr u \<Rightarrow>
     (let s4 = emit GSSServerClean (set_groups {} (set_user u s3)) in
      case authGSSServerClean w of
        Some e \<Rightarrow> (Inl (kerberos_clean_failed e), s4)
      | None \<Rightarrow>
     (if result = AUTH_GSS_COMPLETE
      then (case ctx_remote_addr (ctx s4) of
              None \<Rightarrow> (Inl (KeyError ''remote_addr''), s4)
            | Some _ \<Rightarrow> call_account_info cfg w func req s4)
      else if result = AUTH_GSS_CONTINUE
      then (Inl (HTTPUnauthorized [''Unauthorized'', ''Tried GSSAPI'']), s4)
      else (Inl (HTTPForbidden [''Forbidden'', ''Tried GSSAPI'']), s4))))))))"

text \<open>
  The credentials of a Basic header, as both the directory and the PAM handler read them:
  \<open>basic, token = req.auth.split(" ", 1)\<close> and
  \<open>user, passwd = b64decode(token).split(":", 1)\<close>.
\<close>

definition basic_credentials :: "world \<Rightarrow> string \<Rightarrow> error + (string \<times> string)" where
  "basic_credentials w h =
     (case str_split1 CHR '' '' h of
        [basic, token] \<Rightarrow>
          (case b64decode w token of
             Inl e \<Rightarrow> Inl e
           | Inr d \<Rightarrow>
               (case str_split1 CHR '':'' d of
                  [usr, passwd] \<Rightarrow> Inr (usr, passwd)
                | _ \<Rightarrow> Inl (ValueError ''need more than 1 value to unpack'')))
      | _ \<Rightarrow> Inl (ValueError ''need more than 1 value to unpack''))"

definition please_authenticate :: "config \<Rightarrow> string" where
  "please_authenticate cfg =
     ''Please authenticate with '' @ DOMAIN cfg @ '' domain account or supply UPN''"

text \<open>The bind of \<open>ldap_authenticate\<close>, done only when the context holds no connection;
  only a directory error of the bind is caught.\<close>

fun ldap_bind_failed :: "config \<Rightarrow> error \<Rightarrow> state \<Rightarrow> error \<times> state" where
  "ldap_bind_failed cfg (LDAPError msg) s =
     (HTTPUnauthorized [''Forbidden'', please_authenticate cfg],
      append_header ''WWW-Authenticate'' ''Basic'' s)"
| "ldap_bind_failed cfg e s = (e, s)"

definition ldap_user_bind ::
  "config \<Rightarrow> world \<Rightarrow> string \<Rightarrow> string \<Rightarrow> state \<Rightarrow> error option \<times> state" where
  "ldap_user_bind cfg w usr passwd s =
     (case ctx_ldap_conn (ctx s) of
        Some _ \<Rightarrow> (None, s)
      | None \<Rightarrow>
     (case LDAP_SERVERS cfg of
        [] \<Rightarrow> (Some (ValueError ''No LDAP servers!''), s)
      | server # _ \<Rightarrow>
     (let c = Conn server;
          who = (if CHR ''@'' \<in> set usr then usr else usr @ ''@'' @ DOMAIN cfg);
          s1 = emit (SimpleBind c who passwd)
                 (emit (LdapSetOption c) (emit (LdapInitialize server) s))
      in case simple_bind_s w c who passwd of
        Some e \<Rightarrow> (case ldap_bind_failed cfg e s1 of (e', s2) \<Rightarrow> (Some e', s2))
      | None \<Rightarrow> (None, set_ldap_conn c s1))))"

definition ldap_authenticate ::
  "config \<Rightarrow> world \<Rightarrow> bool \<Rightarrow> 'r handler \<Rightarrow> 'r handler" where
  "ldap_authenticate cfg w optional func req s =
     (case skip_authentication optional req of
        Inl e \<Rightarrow> (Inl e, s)
      | Inr True \<Rightarrow> func req s
      | Inr False \<Rightarrow>
     (if no_auth req
      then (Inl (HTTPUnauthorized [''Forbidden'', please_authenticate cfg]),
            append_header ''WWW-Authenticate'' ''Basic'' s)
      else if \<not> startswith (py_str_opt (auth req)) ''Basic ''
      then (Inl (HTTPForbidden [''Forbidden'', ''Bad header: '' @ py_str_opt (auth req)]), s)
      else
     (case basic_credentials w (py_str_opt (auth req)) of
        Inl e \<Rightarrow> (Inl e, s)
      | Inr cred \<Rightarrow>
     (case ldap_user_bind cfg w (fst cred) (snd cred) s of
        (Some e, s1) \<Rightarrow> (Inl e, s1)
      | (None, s1) \<Rightarrow>
     (case User_init (fst cred) of
        Inl e \<Rightarrow> (Inl e, s1)
      | Inr u \<Rightarrow> call_account_info cfg w func req (set_groups {} (set_user u s1)))))))"

definition pam_authenticate ::
  "config \<Rightarrow> world \<Rightarrow> bool \<Rightarrow> 'r handler \<Rightarrow> 'r handler" where
  "pam_authenticate cfg w optional func req s =
     (case skip_authentication optional req of
        Inl e \<Rightarrow> (Inl e, s)
      | Inr True \<Rightarrow> func req s
      | Inr False \<Rightarrow>
     (if no_auth req
      then (Inl (HTTPUnauthorized [''Forbidden'', ''Please authenticate'']),
            append_header ''WWW-Authenticate'' ''Basic'' s)
      else if \<not> startswith (py_str_opt (auth req)) ''Basic ''
      then (Inl (HTTPForbidden [''Forbidden'', ''Bad header: '' @ py_str_opt (auth req)]), s)
      else
     (case basic_credentials w (py_str_opt (auth req)) of
        Inl e \<Rightarrow> (Inl e, s)
      | Inr cred \<Rightarrow>
     (let s1 = emit (PamAuthenticate (fst cred) (snd cred) ''sshd'') s in
      if \<not> pam_ok w (fst cred) (snd cred) ''sshd''
      then (Inl (HTTPUnauthorized [''Forbidden'', ''Invalid password'']), s1)
      else (case User_init (fst cred) of
              Inl e \<Rightarrow> (Inl e, s1)
            | Inr u \<Rightarrow> call_account_info cfg w func req (set_groups {} (set_user u s1)))))))"

text \<open>
  \<open>authenticate(optional)(func)\<close>, and the two decorators built on it. The backend is
  chosen when the handler is decorated. The message of the error for an unknown backend
  prints the configured set.
\<close>

definition authenticate :: "config \<Rightarrow> world \<Rightarrow> bool \<Rightarrow> 'r handler \<Rightarrow> error + 'r handler" where
  "authenticate cfg w optional func =
     (if set (AUTHENTICATION_BACKENDS cfg) = {''kerberos''}
      then Inr (kerberos_authenticate cfg w optional func)
      else if set (AUTHENTICATION_BACKENDS cfg) = {''pam''}
      then Inr (pam_authenticate cfg w optional func)
      else if set (AUTHENTICATION_BACKENDS cfg) = {''ldap''}
      then Inr (ldap_authenticate cfg w optional func)
      else Inl (NotImplementedError
                  (''Authentication backend '' @ py_str_set (AUTHENTICATION_BACKENDS cfg)
                   @ '' not supported'')))"

definition login_required :: "config \<Rightarrow> world \<Rightarrow> 'r handler \<Rightarrow> error + 'r handler" where
  "login_required cfg w func = authenticate cfg w False func"

definition login_optional :: "config \<Rightarrow> world \<Rightarrow> 'r handler \<Rightarrow> error + 'r handler" where
  "login_optional cfg w func = authenticate cfg w True func"

section \<open>Administrative authorization: \<open>authorize_admin\<close>\<close>

text \<open>
  \<open>req.context.get("user") not in config.ADMIN_WHITELIST\<close> tests the \<open>User\<close> instance
  itself, not its name or its mail address. Membership in a set hashes the object and
  compares it with \<open>==\<close>; the class \<open>User\<close> defines neither \<open>__hash__\<close> nor \<open>__eq__\<close>, so
  an instance is equal to itself and to nothing else, and to no string.
\<close>

definition User_eq_str :: "user \<Rightarrow> string \<Rightarrow> bool" where
  "User_eq_str u x = False"

definition User_in_strs :: "user \<Rightarrow> string set \<Rightarrow> bool" where
  "User_in_strs u S = (\<exists>x\<in>S. User_eq_str u x)"

text \<open>
  \<open>whitelist_authorize\<close>. An instance of \<open>User\<close> is always true (the class has neither
  \<open>__nonzero__\<close> nor \<open>__len__\<close>), so \<open>not req.context.get("user")\<close> holds exactly when
  the key is absent. The message of the error is formatted with \<open>%s\<close>, which prints
  \<open>None\<close> as \<open>None\<close> and an instance through \<open>User.__repr__\<close>.
\<close>

definition not_whitelisted :: "user option \<Rightarrow> error" where
  "not_whitelisted v =
     (case v of
        None \<Rightarrow> HTTPForbidden [''Forbidden'', ''User None not whitelisted'']
      | Some u \<Rightarrow>
          (case User_repr u of
             Inl e \<Rightarrow> e
           | Inr t \<Rightarrow> HTTPForbidden [''Forbidden'', ''User '' @ t @ '' not whitelisted'']))"

definition whitelist_authorize :: "config \<Rightarrow> 'r handler \<Rightarrow> 'r handler" where
  "whitelist_authorize cfg func req s =
     (case ctx_user (ctx s) of
        None \<Rightarrow> (Inl (not_whitelisted None), s)
      | Some u \<Rightarrow>
          if \<not> User_in_strs u (ADMIN_WHITELIST cfg)
          then (Inl (not_whitelisted (Some u)), s)
          else func req s)"

definition authorize_admin :: "config \<Rightarrow> world \<Rightarrow> 'r handler \<Rightarrow> error + 'r handler" where
  "authorize_admin cfg w func =
     (if AUTHORIZATION_BACKEND cfg = ''whitelist''
      then Inr (whitelist_authorize cfg func)
      else member_of cfg w (ADMINS_GROUP cfg) func)"

section \<open>Example deployment\<close>

text \<open>
  A small deployment on which the functions above are run: one administrator
  \<open>alice\<close> in the domain \<open>example.com\<close>, member of the system group \<open>admins\<close> and
  present in the directory; \<open>bob\<close> is known to neither.
\<close>

definition ok_handler :: "unit handler" where
  "ok_handler req s = (Inr (), s)"

definition failing_handler :: "unit handler" where
  "failing_handler req s = (Inl (OtherError ''operation failed''), s)"

definition ex_world :: world where
  "ex_world =
     \<lparr>grp_members = (\<lambda>g. if g = ''admins'' then Some [''alice''] else None),
      pwd_gecos = (\<lambda>n. if n = ''alice'' then Some ''Alice Smith,,,'' else None),
      keytab_exists = True,
      KRB5CCNAME = Some ''/run/certidude/krb5cc'',
      sasl_interactive_bind_s = (\<lambda>c. None),
      simple_bind_s = (\<lambda>c u p. None),
      search_s = (\<lambda>c ft attrs.
         Inr [(Some ''CN=alice,DC=example,DC=com'',
               (\<lambda>k. if k = ''cn'' then Some [''Alice Smith'']
                     else if k = ''mail'' then Some [''alice@example.com''] else None))]),
      pam_ok = (\<lambda>u p svc. False),
      authGSSServerInit = (\<lambda>p. Inr 1),
      authGSSServerStep = (\<lambda>t. Inr 1),
      authGSSServerUserName = ''alice@EXAMPLE.COM'',
      authGSSServerClean = None,
      b64decode = (\<lambda>t. Inr t)\<rparr>"

definition ex_config :: config where
  "ex_config =
     \<lparr>AUTHENTICATION_BACKENDS = [''pam''],
      AUTHORIZATION_BACKEND = ''whitelist'',
      ACCOUNTS_BACKEND = ''ldap'',
      ADMIN_WHITELIST = {''alice@example.com''},
      ADMINS_GROUP = ''admins'',
      LDAP_SERVERS = [''ldap://dc1.example.com''],
      LDAP_BASE = ''dc=example,dc=com'',
      LDAP_USER_FILTER = (\<lambda>n. Inr (''(samaccountname='' @ n @ '')'')),
      LDAP_MEMBERS_FILTER = (\<lambda>g d. Inr (''(&(cn='' @ g @ '')(member='' @ d @ ''))'')),
      DOMAIN = ''example.com'',
      FQDN = ''ca.example.com''\<rparr>"

text \<open>The same world with a given outcome of the GSSAPI step and of the clean-up, and two
  GSSAPI errors.\<close>

definition gss_world :: "(error + int) \<Rightarrow> error option \<Rightarrow> world" where
  "gss_world step clean =
     ex_world\<lparr>authGSSServerStep := (\<lambda>t. step), authGSSServerClean := clean\<rparr>"

definition bad_ticket :: error where
  "bad_ticket =
     GSSError ((''Unspecified GSS failure'', 851968), (''Wrong principal in request'', 100006))"

definition bad_context :: error where
  "bad_context = GSSError ((''Invalid context'', 524288), (''No context'', 0))"

text \<open>The identities \<open>User("alice")\<close>, \<open>User("bob")\<close> and \<open>User("alice@example.com")\<close>.\<close>

definition short_user :: "string \<Rightarrow> user" where
  "short_user nm =
     \<lparr>mail = None, name = nm, domain = None, given_name = None, surname = None, dn = None\<rparr>"

definition alice_at_example :: user where
  "alice_at_example =
     \<lparr>mail = Some ''alice@example.com'', name = ''alice'', domain = Some ''example.com'',
      given_name = None, surname = None, dn = None\<rparr>"

text \<open>The state of a request after authentication: the identity is in the context, the
  groups proven so far are \<open>g\<close>, no directory connection is open, nothing has been sent.\<close>

definition ex_state :: "user \<Rightarrow> string set \<Rightarrow> state" where
  "ex_state u g =
     \<lparr>ctx = \<lparr>ctx_user = Some u, ctx_groups = Some g, ctx_ldap_conn = None,
             ctx_remote_addr = Some ''10.0.0.7''\<rparr>,
      resp_headers = [], trace = []\<rparr>"

text \<open>The state of a request that has not been authenticated.\<close>

definition fresh_state :: state where
  "fresh_state =
     \<lparr>ctx = \<lparr>ctx_user = None, ctx_groups = None, ctx_ldap_conn = None,
             ctx_remote_addr = Some ''10.0.0.7''\<rparr>,
      resp_headers = [], trace = []\<rparr>"



definition ex_request :: "string option \<Rightarrow> request" where
  "ex_request h = \<lparr>auth = h, param_authenticate = Inr None\<rparr>"

section \<open>Facts about splitting\<close>

lemma length_split_on: "length (split_on sep cur s) = Suc (count_list s sep)"
  by (induction s arbitrary: cur) simp_all

lemma length_str_split: "length (str_split sep s) = Suc (count_list s sep)"
  by (simp add: str_split_def length_split_on)

lemma count_list_0_iff: "count_list s c = 0 \<longleftrightarrow> c \<notin> set s"
  by (induction s) auto

lemma split_on_no_sep: "sep \<notin> set s \<Longrightarrow> split_on sep cur s = [cur @ s]"
  by (induction s arbitrary: cur) auto

lemma split_on_first:
  "sep \<in> set s \<Longrightarrow>
   split_on sep cur s =
     (cur @ takeWhile (\<lambda>c. c \<noteq> sep) s) # split_on sep [] (tl (dropWhile (\<lambda>c. c \<noteq> sep) s))"
  by (induction s arbitrary: cur) auto

lemma length_ge_3: "3 \<le> length xs \<Longrightarrow> \<exists>a b c rest. xs = a # b # c # rest"
  by (auto simp: Suc_le_length_iff numeral_3_eq_3)

section \<open>Facts about the state\<close>

lemma ctx_emit [simp]: "ctx (emit e s) = ctx s"
  by (simp add: emit_def)

lemma trace_emit [simp]: "trace (emit e s) = trace s @ [e]"
  by (simp add: emit_def)

lemma resp_headers_emit [simp]: "resp_headers (emit e s) = resp_headers s"
  by (simp add: emit_def)

lemma ctx_append_header [simp]: "ctx (append_header k v s) = ctx s"
  by (simp add: append_header_def)

lemma trace_append_header [simp]: "trace (append_header k v s) = trace s"
  by (simp add: append_header_def)

lemma resp_headers_append_header [simp]:
  "resp_headers (append_header k v s) = resp_headers s @ [(k, v)]"
  by (simp add: append_header_def)

lemma trace_set_user [simp]: "trace (set_user u s) = trace s"
  by (simp add: set_user_def)

lemma trace_set_groups [simp]: "trace (set_groups g s) = trace s"
  by (simp add: set_groups_def)

lemma trace_set_ldap_conn [simp]: "trace (set_ldap_conn c s) = trace s"
  by (simp add: set_ldap_conn_def)

lemma extends_refl [simp]: "extends s s"
  by (simp add: extends_def)

lemma extends_emit [simp]: "extends s s1 \<Longrightarrow> extends s (emit e s1)"
  by (auto simp: extends_def)

lemma extends_set_user [simp]: "extends s (set_user u s1) = extends s s1"
  by (simp add: extends_def)

lemma extends_set_groups [simp]: "extends s (set_groups g s1) = extends s s1"
  by (simp add: extends_def)

lemma extends_set_ldap_conn [simp]: "extends s (set_ldap_conn c s1) = extends s s1"
  by (simp add: extends_def)

lemma extends_append_header [simp]: "extends s (append_header k v s1) = extends s s1"
  by (simp add: extends_def)

lemma extends_trans: "extends a b \<Longrightarrow> extends b c \<Longrightarrow> extends a c"
  by (auto simp: extends_def)

lemma extends_func: "appends_only func \<Longrightarrow> extends s s1 \<Longrightarrow> extends s (snd (func req s1))"
  unfolding appends_only_def by (blast intro: extends_trans)

lemma extends_posix_account_info:
  assumes "appends_only func" and "extends s0 s"
  shows "extends s0 (snd (posix_account_info cfg w func req s))"
  using assms
  by (auto simp: posix_account_info_def Let_def extends_func split: option.splits list.splits)

lemma extends_ldap_service_bind:
  "extends s0 s \<Longrightarrow> extends s0 (snd (ldap_service_bind cfg w s))"
  by (auto simp: ldap_service_bind_def Let_def split: option.splits list.splits)

lemma extends_func_eq:
  "appends_only func \<Longrightarrow> func req s1 = (r, s2) \<Longrightarrow> \<forall>s. extends s s1 \<longrightarrow> extends s s2"
  using extends_func [of func _ s1 req] by simp

lemma extends_ldap_account_info:
  assumes "appends_only func" and "extends s0 s"
  shows "extends s0 (snd (ldap_account_info cfg w func req s))"
proof -
  obtain r s1 where b: "ldap_service_bind cfg w s = (r, s1)"
    by (cases "ldap_service_bind cfg w s")
  with extends_ldap_service_bind [OF assms(2), of cfg w] have e1: "extends s0 s1"
    by simp
  show ?thesis
    unfolding ldap_account_info_def b Let_def
    using e1
    by (auto split: option.splits sum.splits prod.splits
        dest!: extends_func_eq [OF assms(1)])
qed

lemma extends_call_account_info:
  assumes "appends_only func" and "extends s0 s"
  shows "extends s0 (snd (call_account_info cfg w func req s))"
  using assms
  by (simp add: call_account_info_def account_info_def extends_posix_account_info
      extends_ldap_account_info)

lemma extends_kerberos_step_failed:
  "extends s0 s \<Longrightarrow> extends s0 (snd (kerberos_step_failed w e s))"
  by (cases e) (auto simp: Let_def split: option.splits)

lemma appends_only_ok_handler: "appends_only ok_handler"
  by (simp add: appends_only_def ok_handler_def)

lemma split_ws_no_space:
  "\<forall>c\<in>set b. \<not> is_space c \<Longrightarrow> split_ws cur b = (if cur @ b = [] then [] else [cur @ b])"
  by (induction b arbitrary: cur) auto

lemma split_ws_at_space:
  "\<forall>c\<in>set a. \<not> is_space c \<Longrightarrow> is_space x \<Longrightarrow>
   split_ws cur (a @ x # b) = (if cur @ a = [] then split_ws [] b else (cur @ a) # split_ws [] b)"
  by (induction a arbitrary: cur) auto

lemma split_on_at_sep:
  "sep \<notin> set a \<Longrightarrow> split_on sep cur (a @ sep # b) = (cur @ a) # split_on sep [] b"
  by (induction a arbitrary: cur) auto

lemma two_fields:
  assumes "a \<noteq> []" and "b \<noteq> []" and "\<forall>c\<in>set (a @ b). \<not> is_space c"
  shows "kerberos_token (a @ '' '' @ b) = b \<and> spec_second_field (a @ '' '' @ b) = Some b"
proof -
  have sp: "is_space CHR '' ''"
    by (simp add: is_space_def)
  from assms(3) have na: "\<forall>c\<in>set a. \<not> is_space c" and nb: "\<forall>c\<in>set b. \<not> is_space c"
    by auto
  from na nb sp have "CHR '' '' \<notin> set a" and "CHR '' '' \<notin> set b"
    by auto
  then have "str_split CHR '' '' (a @ '' '' @ b) = [a, b]"
    by (simp add: str_split_def split_on_at_sep split_on_no_sep)
  moreover have "str_split_ws (a @ '' '' @ b) = [a, b]"
    using assms(1,2) na nb sp by (simp add: str_split_ws_def split_ws_at_space split_ws_no_space)
  ultimately show ?thesis
    by (simp add: kerberos_token_def spec_second_field_def)
qed

lemma kerberos_authenticate_extends:
  assumes "appends_only func"
      and "\<not> optional \<or> param_authenticate req = Inr (Some True)"
      and "auth req = Some h" and "h \<noteq> []"
      and "authGSSServerInit w (''HTTP@'' @ FQDN cfg) = Inr r0"
  shows "\<exists>evs. trace (snd (kerberos_authenticate cfg w optional func req s))
                 = trace s @ GSSServerInit (''HTTP@'' @ FQDN cfg)
                     # GSSServerStep (kerberos_token h) # evs"
proof -
  let ?s2 = "emit (GSSServerStep (kerberos_token h)) (emit (GSSServerInit (''HTTP@'' @ FQDN cfg)) s)"
  have skip: "skip_authentication optional req = Inr False"
    using assms(2) by (auto simp: skip_authentication_def)
  have some: "\<not> no_auth req"
    using assms(3,4) by (simp add: no_auth_def)
  have "extends ?s2 (snd (kerberos_authenticate cfg w optional func req s))"
    unfolding kerberos_authenticate_def Let_def
    using skip some assms(1,3,5)
    by (auto simp: py_str_opt_def case_prod_beta extends_kerberos_step_failed
        extends_call_account_info split: sum.splits option.splits)
  then show ?thesis
    by (auto simp: extends_def)
qed

lemma User_init_alice: "User_init ''alice'' = Inr (short_user ''alice'')"
  by (simp add: User_init_def short_user_def)

lemma User_init_alice_at_example: "User_init ''alice@example.com'' = Inr alice_at_example"
  by (simp add: User_init_def str_split_def alice_at_example_def)

section \<open>Identity construction\<close>

text \<open>
  C7. Built from \<open>alice@example.com\<close>, the identity has local part \<open>alice\<close> and domain
  part \<open>example.com\<close>; built from \<open>alice\<close>, it has local part \<open>alice\<close> and no domain part.
\<close>

theorem User_init_parts:
  "(\<exists>u. User_init ''alice@example.com'' = Inr u
        \<and> name u = ''alice'' \<and> domain u = Some ''example.com'')
   \<and> (\<exists>u. User_init ''alice'' = Inr u \<and> name u = ''alice'' \<and> domain u = None)"
  by (simp add: User_init_def str_split_def)

text \<open>
  C9. Construction is partial: it raises exactly when the principal has more than one
  \<open>@\<close>, and returns an identity when it has none or one.
\<close>

theorem User_init_fails_iff:
  "(\<exists>e. User_init nm = Inl e) = (1 < count_list nm CHR ''@'')
   \<and> (\<exists>u. User_init nm = Inr u) = (count_list nm CHR ''@'' \<le> 1)"
proof -
  let ?k = "count_list nm CHR ''@''"
  have len: "length (str_split CHR ''@'' nm) = Suc ?k"
    by (rule length_str_split)
  consider (none) "?k = 0" | (one) "?k = 1" | (more) "1 < ?k"
    by linarith
  then show ?thesis
  proof cases
    case none
    then have "CHR ''@'' \<notin> set nm"
      by (simp add: count_list_0_iff)
    with none show ?thesis
      by (simp add: User_init_def)
  next
    case one
    then have mem: "CHR ''@'' \<in> set nm"
      using count_list_0_iff [of nm "CHR ''@''"] by auto
    from one len obtain a b where "str_split CHR ''@'' nm = [a, b]"
      by (auto simp: length_Suc_conv)
    with one mem show ?thesis
      by (simp add: User_init_def)
  next
    case more
    then have mem: "CHR ''@'' \<in> set nm"
      using count_list_0_iff [of nm "CHR ''@''"] by auto
    from more len have "3 \<le> length (str_split CHR ''@'' nm)"
      by simp
    then obtain a b c rest where "str_split CHR ''@'' nm = a # b # c # rest"
      using length_ge_3 by blast
    with more mem show ?thesis
      by (simp add: User_init_def)
  qed
qed

text \<open>
  C10. Straight after construction, before any enrichment, the mail attribute is the raw
  principal when the principal has exactly one \<open>@\<close>, and is unset when it has none.
\<close>

theorem User_init_mail:
  "(count_list nm CHR ''@'' = 1 \<longrightarrow> (\<exists>u. User_init nm = Inr u \<and> mail u = Some nm))
   \<and> (count_list nm CHR ''@'' = 0 \<longrightarrow> (\<exists>u. User_init nm = Inr u \<and> mail u = None))"
proof (intro conjI impI)
  assume one: "count_list nm CHR ''@'' = 1"
  then have mem: "CHR ''@'' \<in> set nm"
    using count_list_0_iff [of nm "CHR ''@''"] by auto
  from one obtain a b where "str_split CHR ''@'' nm = [a, b]"
    using length_str_split [of "CHR ''@''" nm] by (auto simp: length_Suc_conv)
  with mem show "\<exists>u. User_init nm = Inr u \<and> mail u = Some nm"
    by (simp add: User_init_def)
next
  assume "count_list nm CHR ''@'' = 0"
  then have "CHR ''@'' \<notin> set nm"
    by (simp add: count_list_0_iff)
  then show "\<exists>u. User_init nm = Inr u \<and> mail u = None"
    by (simp add: User_init_def)
qed

theorem User_init_mail_witness:
  "(\<exists>u. User_init ''alice@example.com'' = Inr u \<and> mail u = Some ''alice@example.com'')
   \<and> (\<exists>u. User_init ''alice'' = Inr u \<and> mail u = None)"
  using User_init_mail [of "''alice@example.com''"] User_init_mail [of "''alice''"]
  by simp

section \<open>The whitelist check\<close>

text \<open>
  Whatever the whitelist and the identity, \<open>whitelist_authorize\<close> never reaches the
  wrapped handler: the membership test compares the \<open>User\<close> object with the strings of
  the whitelist.
\<close>

lemma whitelist_authorize_never_passes:
  "fst (whitelist_authorize cfg func req s) = Inl (not_whitelisted (ctx_user (ctx s)))"
  by (simp add: whitelist_authorize_def User_in_strs_def User_eq_str_def split: option.splits)

text \<open>
  C1. The whitelist check should pass exactly when the string representation of the
  identity is in the whitelist. On the code it does not: with the whitelist
  \<open>{alice@example.com}\<close> and the identity \<open>User("alice@example.com")\<close>, whose string
  representation is \<open>alice@example.com\<close>, the check raises Forbidden and the wrapped
  handler does not run.
\<close>

theorem whitelist_authorize_rejects_listed_user:
  "ADMIN_WHITELIST ex_config = {''alice@example.com''}
   \<and> User_repr alice_at_example = Inr ''alice@example.com''
   \<and> whitelist_authorize ex_config ok_handler (ex_request None) (ex_state alice_at_example {})
     = (Inl (HTTPForbidden [''Forbidden'', ''User alice@example.com not whitelisted'']),
        ex_state alice_at_example {})"
  by (simp add: whitelist_authorize_def ex_state_def User_in_strs_def User_eq_str_def
      not_whitelisted_def User_repr_def truthy_def alice_at_example_def ex_config_def)

section \<open>The local group check\<close>

text \<open>
  C6. For an authenticated user and a group the system resolves: when the user's name is
  in the member list, the wrapped handler runs in a context whose groups have gained the
  group name; when it is not, the check raises Forbidden and the context is as it was.
\<close>

theorem posix_check_group_membership_ok:
  assumes "ctx_user (ctx s) = Some u"
      and "ctx_groups (ctx s) = Some g"
      and "grp_members w group_name = Some members"
  shows "(name u \<in> set members \<longrightarrow>
            posix_check_group_membership w group_name func req s
              = func req (set_groups (insert group_name g) (emit (Getgrnam group_name) s))
            \<and> ctx_groups (ctx (set_groups (insert group_name g) (emit (Getgrnam group_name) s)))
              = Some (insert group_name g))
       \<and> (name u \<notin> set members \<longrightarrow>
            fst (posix_check_group_membership w group_name func req s)
              = Inl (HTTPForbidden [''Forbidden'', ''User not member of designated group''])
            \<and> ctx (snd (posix_check_group_membership w group_name func req s)) = ctx s)"
  using assms
  by (simp add: posix_check_group_membership_def set_groups_def)

theorem posix_check_group_membership_ok_witness:
  "(fst (posix_check_group_membership ex_world ''admins'' ok_handler (ex_request None)
           (ex_state (short_user ''alice'') {})) = Inr ()
    \<and> ctx_groups (ctx (snd (posix_check_group_membership ex_world ''admins'' ok_handler
           (ex_request None) (ex_state (short_user ''alice'') {})))) = Some {''admins''})
   \<and> (fst (posix_check_group_membership ex_world ''admins'' ok_handler (ex_request None)
           (ex_state (short_user ''bob'') {}))
         = Inl (HTTPForbidden [''Forbidden'', ''User not member of designated group''])
    \<and> ctx_groups (ctx (snd (posix_check_group_membership ex_world ''admins'' ok_handler
           (ex_request None) (ex_state (short_user ''bob'') {})))) = Some {})"
  using posix_check_group_membership_ok [of "ex_state (short_user ''alice'') {}"
           "short_user ''alice''" "{}" ex_world "''admins''" "[''alice'']" ok_handler "ex_request None"]
        posix_check_group_membership_ok [of "ex_state (short_user ''bob'') {}"
           "short_user ''bob''" "{}" ex_world "''admins''" "[''alice'']" ok_handler "ex_request None"]
  by (simp add: ex_state_def ex_world_def short_user_def ok_handler_def set_groups_def emit_def)

section \<open>Checking a group a second time\<close>




lemma posix_check_twice:
  assumes "ctx_user (ctx s) = Some u" and "ctx_groups (ctx s) = Some g"
      and "grp_members w group_name = Some members" and "name u \<in> set members"
  shows "posix_check_group_membership w group_name
           (posix_check_group_membership w group_name func) req s
         = func req (emit (Getgrnam group_name)
                      (set_groups (insert group_name g) (emit (Getgrnam group_name) s)))"
proof -
  let ?s1 = "set_groups (insert group_name g) (emit (Getgrnam group_name) s)"
  have first: "posix_check_group_membership w group_name
           (posix_check_group_membership w group_name func) req s
         = posix_check_group_membership w group_name func req ?s1"
    using assms by (simp add: posix_check_group_membership_def [of w group_name _ req s])
  have u1: "ctx_user (ctx ?s1) = Some u"
    and g1: "ctx_groups (ctx ?s1) = Some (insert group_name g)"
    using assms(1) by (simp_all add: set_groups_def)
  have again: "posix_check_group_membership w group_name func req ?s1
         = func req (set_groups (insert group_name (insert group_name g))
                       (emit (Getgrnam group_name) ?s1))"
    using u1 g1 assms(3,4) by (simp add: posix_check_group_membership_def [of w group_name _ req ?s1])
  have "set_groups (insert group_name (insert group_name g)) (emit (Getgrnam group_name) ?s1)
         = emit (Getgrnam group_name) ?s1"
    by (simp add: set_groups_def emit_def)
  with first again show ?thesis
    by simp
qed



section \<open>Requests without credentials\<close>

text \<open>
  C2, as claimed: with any backend, a request without Authorization header would fail as
  Unauthorized. Under \<open>login_optional\<close> it does not: with no header and no
  \<open>authenticate\<close> parameter the wrapped handler runs, unauthenticated.
\<close>

theorem optional_without_credentials_runs:
  "\<exists>h. login_optional ex_config ex_world ok_handler = Inr h
       \<and> auth (ex_request None) = None
       \<and> h (ex_request None) fresh_state = (Inr (), fresh_state)"
  by (simp add: login_optional_def authenticate_def ex_config_def pam_authenticate_def
      skip_authentication_def ex_request_def ok_handler_def)

text \<open>
  C2, amended. When authentication is required (the decorator is not optional, or the
  request's \<open>authenticate\<close> parameter is true), a request without Authorization header
  fails as Unauthorized for each of the three backends; the challenge header (Negotiate for
  kerberos, Basic for ldap and pam) is appended to the response; the context, and so
  \<open>context.user\<close>, is left as it was, and no outside service is called.
\<close>

theorem authenticate_no_credentials:
  assumes "set (AUTHENTICATION_BACKENDS cfg) = {b}"
      and "b = ''kerberos'' \<or> b = ''ldap'' \<or> b = ''pam''"
      and "auth req = None"
      and "\<not> optional \<or> param_authenticate req = Inr (Some True)"
  shows "\<exists>h. authenticate cfg w optional func = Inr h
            \<and> (\<exists>args. fst (h req s) = Inl (HTTPUnauthorized args))
            \<and> resp_headers (snd (h req s))
                = resp_headers s @ [(''WWW-Authenticate'',
                                      if b = ''kerberos'' then ''Negotiate'' else ''Basic'')]
            \<and> ctx (snd (h req s)) = ctx s
            \<and> trace (snd (h req s)) = trace s"
proof -
  have skip: "skip_authentication optional req = Inr False"
    using assms(4) by (auto simp: skip_authentication_def)
  have none: "no_auth req"
    using assms(3) by (simp add: no_auth_def)
  from assms(2) consider (k) "b = ''kerberos''" | (l) "b = ''ldap''" | (p) "b = ''pam''"
    by blast
  then show ?thesis
  proof cases
    case k
    with assms(1) have "authenticate cfg w optional func
        = Inr (kerberos_authenticate cfg w optional func)"
      by (simp add: authenticate_def)
    with k skip none show ?thesis
      by (simp add: kerberos_authenticate_def)
  next
    case l
    with assms(1) have "authenticate cfg w optional func
        = Inr (ldap_authenticate cfg w optional func)"
      by (simp add: authenticate_def)
    with l skip none show ?thesis
      by (simp add: ldap_authenticate_def)
  next
    case p
    with assms(1) have "authenticate cfg w optional func
        = Inr (pam_authenticate cfg w optional func)"
      by (simp add: authenticate_def)
    with p skip none show ?thesis
      by (simp add: pam_authenticate_def)
  qed
qed

theorem authenticate_no_credentials_witness:
  "\<exists>h. authenticate ex_config ex_world False ok_handler = Inr h
       \<and> (\<exists>args. fst (h (ex_request None) fresh_state) = Inl (HTTPUnauthorized args))
       \<and> resp_headers (snd (h (ex_request None) fresh_state)) = [(''WWW-Authenticate'', ''Basic'')]
       \<and> ctx_user (ctx (snd (h (ex_request None) fresh_state))) = None"
proof -
  have b: "set (AUTHENTICATION_BACKENDS ex_config) = {''pam''}"
    by (simp add: ex_config_def)
  have a: "auth (ex_request None) = None"
    by (simp add: ex_request_def)
  from authenticate_no_credentials [OF b _ a, of False ex_world ok_handler fresh_state]
  obtain h where "authenticate ex_config ex_world False ok_handler = Inr h"
      and "\<exists>args. fst (h (ex_request None) fresh_state) = Inl (HTTPUnauthorized args)"
      and "resp_headers (snd (h (ex_request None) fresh_state))
             = resp_headers fresh_state @ [(''WWW-Authenticate'', ''Basic'')]"
      and "ctx (snd (h (ex_request None) fresh_state)) = ctx fresh_state"
    by auto
  then show ?thesis
    by (auto simp: fresh_state_def)
qed

section \<open>Release of the directory connection\<close>

text \<open>
  When \<open>ldap_account_info\<close> returns a value, the last thing it did was to unbind the
  connection of the context. When it raises, it has unbound nothing: an unbind in the
  trace was there before or comes from the wrapped handler.
\<close>

lemma ldap_account_info_unbinds_on_return:
  assumes "ldap_account_info cfg w func req s = (Inr v, s')"
  shows "\<exists>c s3. s' = emit (LdapUnbind c) s3 \<and> ctx_ldap_conn (ctx s3) = Some c"
proof -
  obtain r s1 where b: "ldap_service_bind cfg w s = (r, s1)"
    by (cases "ldap_service_bind cfg w s")
  from assms show ?thesis
    unfolding ldap_account_info_def b Let_def
    by (auto split: option.splits sum.splits prod.splits)
qed

lemma ldap_account_info_raise_no_unbind:
  assumes "ldap_account_info cfg w func req s = (Inl e, s')"
      and "LdapUnbind c \<notin> set (trace s)"
      and "\<And>r t. LdapUnbind c \<in> set (trace (snd (func r t))) \<Longrightarrow> LdapUnbind c \<in> set (trace t)"
  shows "LdapUnbind c \<notin> set (trace s')"
proof -
  obtain r s1 where b: "ldap_service_bind cfg w s = (r, s1)"
    by (cases "ldap_service_bind cfg w s")
  have t1: "LdapUnbind c \<notin> set (trace s1)"
    using b assms(2)
    by (auto simp: ldap_service_bind_def Let_def split: option.splits list.splits if_splits)
  have h: "LdapUnbind c \<in> set (trace t)"
    if "func r t = (a, s2)" and "LdapUnbind c \<in> set (trace s2)" for r t a s2
    using assms(3) [of r t] that by simp
  from assms(1) t1 show ?thesis
    unfolding ldap_account_info_def b Let_def
    by (auto split: option.splits sum.splits prod.splits dest: h)
qed

text \<open>
  C3. A connection opened by \<open>ldap_account_info\<close> should be released after the wrapped
  handler completes, whether it returns or raises. On the code it is not released when the
  handler raises: the connection is opened and bound, the search is made, the handler
  raises, and no \<open>unbind_s\<close> follows; the context still holds the connection.
\<close>

theorem ldap_account_info_leaks_on_failure:
  "ctx_ldap_conn (ctx (ex_state (short_user ''alice'') {})) = None
   \<and> fst (ldap_account_info ex_config ex_world failing_handler (ex_request None)
            (ex_state (short_user ''alice'') {})) = Inl (OtherError ''operation failed'')
   \<and> ctx_ldap_conn (ctx (snd (ldap_account_info ex_config ex_world failing_handler
            (ex_request None) (ex_state (short_user ''alice'') {}))))
       = Some (Conn ''ldap://dc1.example.com'')
   \<and> trace (snd (ldap_account_info ex_config ex_world failing_handler (ex_request None)
            (ex_state (short_user ''alice'') {})))
       = [LdapInitialize ''ldap://dc1.example.com'',
          LdapSetOption (Conn ''ldap://dc1.example.com''),
          SaslBind (Conn ''ldap://dc1.example.com''),
          LdapSearch (Conn ''ldap://dc1.example.com'') ''dc=example,dc=com''
            ''(samaccountname=alice)'' [''cn'', ''givenname'', ''sn'', ''mail'', ''userPrincipalName'']]"
  by (simp add: ldap_account_info_def ldap_service_bind_def ex_config_def ex_world_def
      ex_state_def short_user_def failing_handler_def ex_request_def truthy_def
      set_ldap_conn_def set_user_def emit_def first_entry_def py_str_opt_def
      ldap_names_def ldap_mail_def list_truthy_def unpack1_def str_split1_def Let_def)

section \<open>The Kerberos token\<close>

text \<open>
  C4, as claimed: the token handed to the GSSAPI step would be the second space-separated
  field of the header, also when the header has more than two fields. It is not: for
  \<open>Negotiate abc def\<close> the second field is \<open>abc\<close> and the step receives \<open>abcdef\<close>.
\<close>

theorem kerberos_token_joins_fields:
  "spec_second_field ''Negotiate abc def'' = Some ''abc''
   \<and> take 2 (trace (snd (kerberos_authenticate ex_config ex_world False ok_handler
                         (ex_request (Some ''Negotiate abc def'')) fresh_state)))
       = [GSSServerInit ''HTTP@ca.example.com'', GSSServerStep ''abcdef'']"
proof -
  let ?req = "ex_request (Some ''Negotiate abc def'')"
  have i: "authGSSServerInit ex_world (''HTTP@'' @ FQDN ex_config) = Inr 1"
    by (simp add: ex_world_def)
  have a: "auth ?req = Some ''Negotiate abc def''"
    by (simp add: ex_request_def)
  have tok: "kerberos_token ''Negotiate abc def'' = ''abcdef''"
    by (simp add: kerberos_token_def str_split_ws_def is_space_def)
  have "\<exists>evs. trace (snd (kerberos_authenticate ex_config ex_world False ok_handler ?req fresh_state))
           = GSSServerInit ''HTTP@ca.example.com'' # GSSServerStep ''abcdef'' # evs"
    using kerberos_authenticate_extends [OF appends_only_ok_handler _ a _ i, of False fresh_state]
    unfolding tok by (simp add: ex_config_def fresh_state_def)
  moreover have "spec_second_field ''Negotiate abc def'' = Some ''abc''"
    by (simp add: spec_second_field_def str_split_def)
  ultimately show ?thesis
    by auto
qed

text \<open>
  C4, amended. For a non-empty header, when authentication is not skipped and the GSSAPI
  initialisation succeeds, the step is called right after the initialisation with the
  concatenation of all white-space separated fields of the header after the first; for a
  header of exactly two fields separated by one space, that is the second field.
\<close>

theorem kerberos_step_token:
  assumes "appends_only func"
      and "\<not> optional \<or> param_authenticate req = Inr (Some True)"
      and "auth req = Some h" and "h \<noteq> []"
      and "authGSSServerInit w (''HTTP@'' @ FQDN cfg) = Inr r0"
  shows "(\<exists>evs. trace (snd (kerberos_authenticate cfg w optional func req s))
                 = trace s @ GSSServerInit (''HTTP@'' @ FQDN cfg)
                     # GSSServerStep (concat (tl (str_split_ws h))) # evs)
       \<and> (\<forall>a b. h = a @ '' '' @ b \<and> a \<noteq> [] \<and> b \<noteq> [] \<and> (\<forall>c\<in>set (a @ b). \<not> is_space c)
              \<longrightarrow> concat (tl (str_split_ws h)) = b \<and> spec_second_field h = Some b)"
proof -
  have "\<exists>evs. trace (snd (kerberos_authenticate cfg w optional func req s))
                 = trace s @ GSSServerInit (''HTTP@'' @ FQDN cfg)
                     # GSSServerStep (concat (tl (str_split_ws h))) # evs"
    using kerberos_authenticate_extends [OF assms] by (simp add: kerberos_token_def)
  moreover have "\<forall>a b. h = a @ '' '' @ b \<and> a \<noteq> [] \<and> b \<noteq> [] \<and> (\<forall>c\<in>set (a @ b). \<not> is_space c)
              \<longrightarrow> concat (tl (str_split_ws h)) = b \<and> spec_second_field h = Some b"
    using two_fields by (auto simp: kerberos_token_def)
  ultimately show ?thesis
    by blast
qed

theorem kerberos_step_token_witness:
  "(\<exists>evs. trace (snd (kerberos_authenticate ex_config ex_world False ok_handler
                      (ex_request (Some ''Negotiate YIIabc'')) fresh_state))
           = GSSServerInit ''HTTP@ca.example.com'' # GSSServerStep ''YIIabc'' # evs)
   \<and> spec_second_field ''Negotiate YIIabc'' = Some ''YIIabc''"
proof -
  let ?req = "ex_request (Some ''Negotiate YIIabc'')"
  have i: "authGSSServerInit ex_world (''HTTP@'' @ FQDN ex_config) = Inr 1"
    by (simp add: ex_world_def)
  have a: "auth ?req = Some ''Negotiate YIIabc''"
    by (simp add: ex_request_def)
  have g: "\<not> False \<or> param_authenticate ?req = Inr (Some True)"
    by simp
  have n: "''Negotiate YIIabc'' \<noteq> []"
    by simp
  note t = kerberos_step_token [OF appends_only_ok_handler g a n i, of fresh_state]
  have two: "''Negotiate YIIabc'' = ''Negotiate'' @ '' '' @ ''YIIabc''
      \<and> ''Negotiate'' \<noteq> [] \<and> ''YIIabc'' \<noteq> []
      \<and> (\<forall>c\<in>set (''Negotiate'' @ ''YIIabc''). \<not> is_space c)"
    by (simp add: is_space_def)
  from t [THEN conjunct2, THEN spec, THEN spec, THEN mp, OF two]
  have tok: "concat (tl (str_split_ws ''Negotiate YIIabc'')) = ''YIIabc''"
    and snd: "spec_second_field ''Negotiate YIIabc'' = Some ''YIIabc''"
    by blast+
  from t [THEN conjunct1] tok
  have "\<exists>evs. trace (snd (kerberos_authenticate ex_config ex_world False ok_handler ?req fresh_state))
           = GSSServerInit ''HTTP@ca.example.com'' # GSSServerStep ''YIIabc'' # evs"
    unfolding tok by (simp add: ex_config_def fresh_state_def)
  with snd show ?thesis
    by blast
qed

section \<open>Failures of the Kerberos exchange\<close>

text \<open>
  What the handler does around the GSSAPI step. When the step fails with a GSSAPI or a
  Kerberos error, the clean-up is called before anything is raised and the context of the
  request is untouched; the clean-up succeeding, the result is Forbidden with the error's
  text (and, for a GSSAPI error, its code). When the step returns and the identity is
  constructed, the clean-up is called, and its failure with a GSSAPI error gives
  Unauthorized. When the step returns and the identity cannot be constructed, the
  constructor's error is raised and the clean-up is never called.
\<close>

lemma kerberos_step_failure:
  assumes "\<not> optional \<or> param_authenticate req = Inr (Some True)"
      and "auth req = Some h" and "h \<noteq> []"
      and "authGSSServerInit w (''HTTP@'' @ FQDN cfg) = Inr r0"
  shows "(authGSSServerStep w (kerberos_token h) = Inl (GSSError ex) \<longrightarrow>
            trace (snd (kerberos_authenticate cfg w optional func req s))
              = trace s @ [GSSServerInit (''HTTP@'' @ FQDN cfg),
                           GSSServerStep (kerberos_token h), GSSServerClean]
            \<and> ctx (snd (kerberos_authenticate cfg w optional func req s)) = ctx s
            \<and> (authGSSServerClean w = None \<longrightarrow>
                 fst (kerberos_authenticate cfg w optional func req s)
                   = Inl (HTTPForbidden [''Forbidden'',
                       ''Bad credentials: '' @ fst (fst ex) @ '' ('' @ int_str (snd (fst ex)) @ '')''])))
       \<and> (authGSSServerStep w (kerberos_token h) = Inl (KrbError msg) \<longrightarrow>
            trace (snd (kerberos_authenticate cfg w optional func req s))
              = trace s @ [GSSServerInit (''HTTP@'' @ FQDN cfg),
                           GSSServerStep (kerberos_token h), GSSServerClean]
            \<and> ctx (snd (kerberos_authenticate cfg w optional func req s)) = ctx s
            \<and> (authGSSServerClean w = None \<longrightarrow>
                 fst (kerberos_authenticate cfg w optional func req s)
                   = Inl (HTTPForbidden [''Forbidden'', ''Bad credentials: '' @ msg])))
       \<and> (authGSSServerStep w (kerberos_token h) = Inr result
            \<and> User_init (authGSSServerUserName w) = Inr u
            \<and> authGSSServerClean w = Some (GSSError ex') \<longrightarrow>
            fst (kerberos_authenticate cfg w optional func req s)
              = Inl (HTTPUnauthorized
                  [''Authentication System Failure '' @ fst (fst ex') @ '' ('' @ fst (snd ex') @ '')'']))"
proof -
  have skip: "skip_authentication optional req = Inr False"
    using assms(1) by (auto simp: skip_authentication_def)
  have some: "\<not> no_auth req"
    using assms(2,3) by (simp add: no_auth_def)
  show ?thesis
    unfolding kerberos_authenticate_def Let_def
    using skip some assms(2,4)
    by (auto simp: py_str_opt_def Let_def split: option.splits)
qed

lemma kerberos_step_failure_examples:
  "fst (kerberos_authenticate ex_config (gss_world (Inl bad_ticket) None) False ok_handler
          (ex_request (Some ''Negotiate YIIabc'')) fresh_state)
     = Inl (HTTPForbidden [''Forbidden'', ''Bad credentials: Unspecified GSS failure (851968)''])
   \<and> trace (snd (kerberos_authenticate ex_config (gss_world (Inl bad_ticket) None) False
          ok_handler (ex_request (Some ''Negotiate YIIabc'')) fresh_state))
     = [GSSServerInit ''HTTP@ca.example.com'', GSSServerStep ''YIIabc'', GSSServerClean]
   \<and> fst (kerberos_authenticate ex_config (gss_world (Inr 1) (Some bad_context)) False ok_handler
          (ex_request (Some ''Negotiate YIIabc'')) fresh_state)
     = Inl (HTTPUnauthorized [''Authentication System Failure Invalid context (No context)''])"
proof -
  let ?req = "ex_request (Some ''Negotiate YIIabc'')"
  have a: "auth ?req = Some ''Negotiate YIIabc''"
    by (simp add: ex_request_def)
  have tok: "kerberos_token ''Negotiate YIIabc'' = ''YIIabc''"
    by (simp add: kerberos_token_def str_split_ws_def is_space_def)
  have i: "authGSSServerInit (gss_world st cl) (''HTTP@'' @ FQDN ex_config) = Inr 1" for st cl
    by (simp add: gss_world_def ex_world_def)
  have num: "int_str 851968 = ''851968''"
    by (simp add: int_str_def nat_str.simps digit_char_def)
  have u: "User_init (authGSSServerUserName (gss_world (Inr 1) (Some bad_context)))
             = Inr \<lparr>mail = Some ''alice@EXAMPLE.COM'', name = ''alice'',
                     domain = Some ''EXAMPLE.COM'', given_name = None, surname = None, dn = None\<rparr>"
    by (simp add: gss_world_def ex_world_def User_init_def str_split_def)
  from kerberos_step_failure [OF _ a _ i, of False "Inl bad_ticket" None
         "((''Unspecified GSS failure'', 851968), (''Wrong principal in request'', 100006))"
         ok_handler fresh_state, THEN conjunct1]
  have first: "fst (kerberos_authenticate ex_config (gss_world (Inl bad_ticket) None) False ok_handler
          ?req fresh_state)
     = Inl (HTTPForbidden [''Forbidden'', ''Bad credentials: Unspecified GSS failure (851968)''])
   \<and> trace (snd (kerberos_authenticate ex_config (gss_world (Inl bad_ticket) None) False
          ok_handler ?req fresh_state))
     = [GSSServerInit ''HTTP@ca.example.com'', GSSServerStep ''YIIabc'', GSSServerClean]"
    by (simp add: tok num gss_world_def bad_ticket_def ex_config_def fresh_state_def)
  from kerberos_step_failure [OF _ a _ i, of False "Inr 1" "Some bad_context" _
         ok_handler fresh_state _ 1 _ "((''Invalid context'', 524288), (''No context'', 0))",
         THEN conjunct2, THEN conjunct2] u
  have second: "fst (kerberos_authenticate ex_config (gss_world (Inr 1) (Some bad_context)) False
          ok_handler ?req fresh_state)
     = Inl (HTTPUnauthorized [''Authentication System Failure Invalid context (No context)''])"
    by (simp add: tok gss_world_def bad_context_def)
  from first second show ?thesis
    by simp
qed

lemma kerberos_release_after_step:
  assumes "appends_only func"
      and "\<not> optional \<or> param_authenticate req = Inr (Some True)"
      and "auth req = Some h" and "h \<noteq> []"
      and "authGSSServerInit w (''HTTP@'' @ FQDN cfg) = Inr r0"
      and "authGSSServerStep w (kerberos_token h) = Inr result"
      and "User_init (authGSSServerUserName w) = Inr u"
  shows "\<exists>evs. trace (snd (kerberos_authenticate cfg w optional func req s))
                 = trace s @ [GSSServerInit (''HTTP@'' @ FQDN cfg),
                              GSSServerStep (kerberos_token h), GSSServerUserName,
                              GSSServerClean] @ evs"
proof -
  let ?s4 = "emit GSSServerClean (set_groups {} (set_user u (emit GSSServerUserName
               (emit (GSSServerStep (kerberos_token h))
                 (emit (GSSServerInit (''HTTP@'' @ FQDN cfg)) s)))))"
  have skip: "skip_authentication optional req = Inr False"
    using assms(2) by (auto simp: skip_authentication_def)
  have some: "\<not> no_auth req"
    using assms(3,4) by (simp add: no_auth_def)
  have "extends ?s4 (snd (kerberos_authenticate cfg w optional func req s))"
    unfolding kerberos_authenticate_def Let_def
    using skip some assms(1,3,5,6,7)
    by (auto simp: py_str_opt_def extends_call_account_info split: option.splits)
  then show ?thesis
    by (auto simp: extends_def)
qed

lemma kerberos_no_release_when_User_raises:
  assumes "\<not> optional \<or> param_authenticate req = Inr (Some True)"
      and "auth req = Some h" and "h \<noteq> []"
      and "authGSSServerInit w (''HTTP@'' @ FQDN cfg) = Inr r0"
      and "authGSSServerStep w (kerberos_token h) = Inr result"
      and "User_init (authGSSServerUserName w) = Inl e"
  shows "fst (kerberos_authenticate cfg w optional func req s) = Inl e
       \<and> trace (snd (kerberos_authenticate cfg w optional func req s))
           = trace s @ [GSSServerInit (''HTTP@'' @ FQDN cfg),
                        GSSServerStep (kerberos_token h), GSSServerUserName]"
proof -
  have skip: "skip_authentication optional req = Inr False"
    using assms(1) by (auto simp: skip_authentication_def)
  have some: "\<not> no_auth req"
    using assms(2,3) by (simp add: no_auth_def)
  show ?thesis
    unfolding kerberos_authenticate_def Let_def
    using skip some assms(2,4,5,6)
    by (simp add: py_str_opt_def)
qed

lemma kerberos_no_release_example:
  "fst (kerberos_authenticate ex_config (ex_world\<lparr>authGSSServerUserName := ''a@b@c''\<rparr>) False
          ok_handler (ex_request (Some ''Negotiate YIIabc'')) fresh_state)
     = Inl (ValueError ''too many values to unpack'')
   \<and> trace (snd (kerberos_authenticate ex_config (ex_world\<lparr>authGSSServerUserName := ''a@b@c''\<rparr>)
          False ok_handler (ex_request (Some ''Negotiate YIIabc'')) fresh_state))
     = [GSSServerInit ''HTTP@ca.example.com'', GSSServerStep ''YIIabc'', GSSServerUserName]"
  by (simp add: kerberos_authenticate_def skip_authentication_def no_auth_def ex_request_def
      py_str_opt_def kerberos_token_def str_split_ws_def is_space_def ex_world_def
      ex_config_def fresh_state_def Let_def User_init_def str_split_def emit_def)

text \<open>
  C5. A request whose GSSAPI step fails with a mechanism error should end as Forbidden,
  with the mechanism's text and code, the exchange context released before the error is
  raised. On the code it does not when the clean-up fails too: the \<open>except\<close> clauses of
  the step call \<open>authGSSServerClean\<close> outside any \<open>try\<close>, where the success path guards
  the same call with \<open>try ... except GSSError\<close>. The step fails, the clean-up is called
  and fails, and the clean-up's own GSSAPI error is what the handler raises: neither
  Forbidden nor Unauthorized.
\<close>

theorem kerberos_failed_release_not_forbidden:
  "authGSSServerStep (gss_world (Inl bad_ticket) (Some bad_context)) ''YIIabc'' = Inl bad_ticket
   \<and> fst (kerberos_authenticate ex_config (gss_world (Inl bad_ticket) (Some bad_context)) False
            ok_handler (ex_request (Some ''Negotiate YIIabc'')) fresh_state)
       = Inl (GSSError ((''Invalid context'', 524288), (''No context'', 0)))
   \<and> trace (snd (kerberos_authenticate ex_config (gss_world (Inl bad_ticket) (Some bad_context))
            False ok_handler (ex_request (Some ''Negotiate YIIabc'')) fresh_state))
       = [GSSServerInit ''HTTP@ca.example.com'', GSSServerStep ''YIIabc'', GSSServerClean]"
  by (simp add: kerberos_authenticate_def skip_authentication_def no_auth_def ex_request_def
      py_str_opt_def kerberos_token_def str_split_ws_def is_space_def gss_world_def
      ex_world_def ex_config_def fresh_state_def bad_ticket_def bad_context_def Let_def emit_def)

end
